theory Spec2Isabelle
  imports Complex_Main
begin

section \<open>Array elements: real numbers with the special values of numpy floats\<close>

text \<open>
  The source computes on numpy float arrays. Rounding is not modelled: a finite element is
  an exact real number \<open>Fin x\<close>. What is modelled is what numpy does where real arithmetic
  has no answer: a division by zero does not raise, it yields \<open>inf\<close>, \<open>-inf\<close> or \<open>nan\<close>,
  and these values propagate through later operations. The guards of the source
  (\<^verbatim>\<open>one_s[s == 0] = 0\<close>, \<^verbatim>\<open>RGB[m == 0] = 0\<close>) overwrite exactly those results, so they
  are visible in the model. (The sign of zero is not modelled.)
\<close>

datatype npfloat = Fin real | PInf | NInf | NaN

datatype error = ValueError | IndexError

fun is_finite :: "npfloat \<Rightarrow> bool" where
  "is_finite (Fin x) = True"
| "is_finite PInf = False"
| "is_finite NInf = False"
| "is_finite NaN = False"

text \<open>\<^verbatim>\<open>a + b\<close> on array elements.\<close>

fun np_add :: "npfloat \<Rightarrow> npfloat \<Rightarrow> npfloat" where
  "np_add (Fin a) (Fin b) = Fin (a + b)"
| "np_add NaN y = NaN"
| "np_add x NaN = NaN"
| "np_add PInf NInf = NaN"
| "np_add NInf PInf = NaN"
| "np_add PInf y = PInf"
| "np_add x PInf = PInf"
| "np_add NInf y = NInf"
| "np_add x NInf = NInf"

fun np_neg :: "npfloat \<Rightarrow> npfloat" where
  "np_neg (Fin a) = Fin (- a)"
| "np_neg PInf = NInf"
| "np_neg NInf = PInf"
| "np_neg NaN = NaN"

definition np_sub :: "npfloat \<Rightarrow> npfloat \<Rightarrow> npfloat" where
  "np_sub x y = np_add x (np_neg y)"

text \<open>An infinity with the sign of \<open>PInf\<close> times the sign of a real; \<open>inf * 0\<close> is \<open>nan\<close>.\<close>

definition inf_times :: "real \<Rightarrow> npfloat" where
  "inf_times b = (if b = 0 then NaN else if 0 < b then PInf else NInf)"

text \<open>\<^verbatim>\<open>a * b\<close> on array elements.\<close>

fun np_mul :: "npfloat \<Rightarrow> npfloat \<Rightarrow> npfloat" where
  "np_mul (Fin a) (Fin b) = Fin (a * b)"
| "np_mul NaN y = NaN"
| "np_mul x NaN = NaN"
| "np_mul PInf (Fin b) = inf_times b"
| "np_mul (Fin a) PInf = inf_times a"
| "np_mul NInf (Fin b) = inf_times (- b)"
| "np_mul (Fin a) NInf = inf_times (- a)"
| "np_mul PInf PInf = PInf"
| "np_mul NInf NInf = PInf"
| "np_mul PInf NInf = NInf"
| "np_mul NInf PInf = NInf"

text \<open>
  \<^verbatim>\<open>a / b\<close> on array elements (true division, the source imports \<^verbatim>\<open>division\<close> from
  \<^verbatim>\<open>__future__\<close>). Dividing a finite number by zero gives \<open>nan\<close> for \<open>0 / 0\<close> and an
  infinity with the sign of the numerator otherwise; numpy warns and does not raise.
\<close>

fun np_div :: "npfloat \<Rightarrow> npfloat \<Rightarrow> npfloat" where
  "np_div (Fin a) (Fin b) =
     (if b = 0 then (if a = 0 then NaN else if 0 < a then PInf else NInf)
      else Fin (a / b))"
| "np_div NaN y = NaN"
| "np_div x NaN = NaN"
| "np_div (Fin a) PInf = Fin 0"
| "np_div (Fin a) NInf = Fin 0"
| "np_div PInf (Fin b) = (if 0 \<le> b then PInf else NInf)"
| "np_div NInf (Fin b) = (if 0 \<le> b then NInf else PInf)"
| "np_div PInf PInf = NaN"
| "np_div PInf NInf = NaN"
| "np_div NInf PInf = NaN"
| "np_div NInf NInf = NaN"

text \<open>The binary step of \<^verbatim>\<open>np.max\<close>: the larger element, \<open>nan\<close> if either is \<open>nan\<close>.\<close>

fun np_maximum :: "npfloat \<Rightarrow> npfloat \<Rightarrow> npfloat" where
  "np_maximum (Fin a) (Fin b) = Fin (max a b)"
| "np_maximum NaN y = NaN"
| "np_maximum x NaN = NaN"
| "np_maximum PInf y = PInf"
| "np_maximum x PInf = PInf"
| "np_maximum NInf y = y"
| "np_maximum x NInf = x"

text \<open>\<^verbatim>\<open>a == b\<close> on array elements: \<open>nan\<close> equals nothing.\<close>

fun np_eq :: "npfloat \<Rightarrow> npfloat \<Rightarrow> bool" where
  "np_eq NaN y = False"
| "np_eq x NaN = False"
| "np_eq x y = (x = y)"

section \<open>Reductions over the trailing axis of one vector\<close>

text \<open>
  \<^verbatim>\<open>np.max(a, axis=-1)\<close> on a one-dimensional array: the maximum has no identity, so numpy
  raises \<^verbatim>\<open>ValueError\<close> on an axis of length zero.
\<close>

fun amax :: "npfloat list \<Rightarrow> error + npfloat" where
  "amax [] = Inl ValueError"
| "amax (x # xs) = Inr (foldl np_maximum x xs)"

text \<open>\<^verbatim>\<open>np.sum(a, axis=-1)\<close> on a one-dimensional array; the empty sum is zero.\<close>

definition np_sum :: "npfloat list \<Rightarrow> npfloat" where
  "np_sum xs = foldl np_add (Fin 0) xs"

text \<open>
  Modelled from the spec: \<^verbatim>\<open>tsplit\<close> and \<^verbatim>\<open>tstack\<close> of \<^verbatim>\<open>colour.utilities\<close> are not part
  of the source at hand. The spec describes them as the split of an array's trailing axis
  into separate same-shape arrays, and the stacking of separate same-shape arrays into one
  array with a new trailing axis. On a single vector the separate arrays are its scalar
  components, so both are the identity on the list of components; what matters is the
  number of components, which the tuple unpacking \<^verbatim>\<open>r, g, b = ...\<close> of the source checks.
\<close>

definition tsplit :: "npfloat list \<Rightarrow> npfloat list" where
  "tsplit a = a"

definition tstack :: "npfloat list \<Rightarrow> npfloat list" where
  "tstack a = a"

section \<open>The two transforms on one vector\<close>

text \<open>
  \<^verbatim>\<open>RGB_to_Prismatic\<close> on an array of shape \<open>(n,)\<close>, statement by statement:
  \<^verbatim>\<open>L = np.max(RGB, axis=-1)\<close>, \<^verbatim>\<open>s = np.sum(RGB, axis=-1)[..., np.newaxis]\<close>,
  \<^verbatim>\<open>one_s = 1 / s\<close>, \<^verbatim>\<open>one_s[s == 0] = 0\<close>, \<^verbatim>\<open>r, g, b = tsplit(one_s * RGB)\<close>,
  \<^verbatim>\<open>return tstack((L, r, g, b))\<close>. Unpacking anything but three arrays raises
  \<^verbatim>\<open>ValueError\<close>.
\<close>

definition RGB_to_Prismatic :: "npfloat list \<Rightarrow> error + npfloat list" where
  "RGB_to_Prismatic RGB =
     (case amax RGB of
        Inl e \<Rightarrow> Inl e
      | Inr L \<Rightarrow>
          (let s = np_sum RGB;
               one_s = np_div (Fin 1) s;
               one_s = (if np_eq s (Fin 0) then Fin 0 else one_s)
           in case tsplit (map (np_mul one_s) RGB) of
                [r, g, b] \<Rightarrow> Inr (tstack [L, r, g, b])
              | _ \<Rightarrow> Inl ValueError))"

text \<open>
  \<^verbatim>\<open>Prismatic_to_RGB\<close> on an array of shape \<open>(n,)\<close>: \<^verbatim>\<open>rgb = Lrgb[..., 1:]\<close> (a slice never
  raises), \<^verbatim>\<open>m = np.max(rgb, axis=-1)[..., np.newaxis]\<close>,
  \<^verbatim>\<open>RGB = Lrgb[..., 0][..., np.newaxis] / m\<close> (an index raises \<^verbatim>\<open>IndexError\<close> on an empty
  axis), \<^verbatim>\<open>RGB[m == 0] = 0\<close>, \<^verbatim>\<open>RGB = RGB * rgb\<close>. The length of the trailing axis is never
  inspected.
\<close>

definition Prismatic_to_RGB :: "npfloat list \<Rightarrow> error + npfloat list" where
  "Prismatic_to_RGB Lrgb =
     (let rgb = drop 1 Lrgb
      in case amax rgb of
           Inl e \<Rightarrow> Inl e
         | Inr m \<Rightarrow>
             (case Lrgb of
                [] \<Rightarrow> Inl IndexError
              | L # _ \<Rightarrow>
                  (let RGB = np_div L m;
                       RGB = (if np_eq m (Fin 0) then Fin 0 else RGB)
                   in Inr (map (np_mul RGB) rgb))))"

section \<open>The two transforms on a batch of vectors\<close>

text \<open>
  A two-dimensional array of shape \<open>(N, n)\<close>: \<open>N\<close> vectors along the leading axis, each
  with \<open>n\<close> components along the trailing axis. The length of the trailing axis is part of
  the array, since an array of shape \<open>(0, n)\<close> has no vector to read it from.
\<close>

record ndarray2 =
  trailing :: nat
  vectors :: "npfloat list list"

definition wellformed :: "ndarray2 \<Rightarrow> bool" where
  "wellformed a = list_all (\<lambda>v. length v = trailing a) (vectors a)"

text \<open>The first error of a list of results, or all the values.\<close>

fun sequence :: "(error + 'a) list \<Rightarrow> error + 'a list" where
  "sequence [] = Inr []"
| "sequence (Inl e # rs) = Inl e"
| "sequence (Inr x # rs) = (case sequence rs of Inl e \<Rightarrow> Inl e | Inr xs \<Rightarrow> Inr (x # xs))"

text \<open>
  \<^verbatim>\<open>np.max(a, axis=-1)\<close> on shape \<open>(N, n)\<close>, with result of shape \<open>(N,)\<close>: a trailing axis
  of length zero raises \<^verbatim>\<open>ValueError\<close> whatever \<open>N\<close> is.
\<close>

definition amax_axis :: "ndarray2 \<Rightarrow> error + npfloat list" where
  "amax_axis a = (if trailing a = 0 then Inl ValueError else sequence (map amax (vectors a)))"

text \<open>\<^verbatim>\<open>a[..., 0]\<close> on shape \<open>(N, n)\<close>: \<^verbatim>\<open>IndexError\<close> on a trailing axis of length zero.\<close>

definition index0_axis :: "ndarray2 \<Rightarrow> error + npfloat list" where
  "index0_axis a =
     (if trailing a = 0 then Inl IndexError else Inr (map (\<lambda>v. v ! 0) (vectors a)))"

text \<open>
  Modelled from the spec: \<^verbatim>\<open>tsplit\<close> on shape \<open>(N, n)\<close> splits the trailing axis into \<open>n\<close>
  arrays of shape \<open>(N,)\<close>, and \<^verbatim>\<open>tstack\<close> stacks \<open>k\<close> arrays of one shape \<open>(N,)\<close> into
  an array of shape \<open>(N, k)\<close>, their common shape being that of the first.
\<close>

definition tsplit_batch :: "ndarray2 \<Rightarrow> npfloat list list" where
  "tsplit_batch a = map (\<lambda>x. map (\<lambda>v. v ! x) (vectors a)) [0..<trailing a]"

definition tstack_batch :: "npfloat list list \<Rightarrow> ndarray2" where
  "tstack_batch cols =
     \<lparr>trailing = length cols,
      vectors = map (\<lambda>i. map (\<lambda>c. c ! i) cols)
                  [0..<(case cols of [] \<Rightarrow> 0 | c # _ \<Rightarrow> length c)]\<rparr>"

text \<open>
  \<^verbatim>\<open>RGB_to_Prismatic\<close> on shape \<open>(N, n)\<close>. \<open>L\<close>, \<open>s\<close> and \<open>one_s\<close> hold one element for
  each vector; the axis that \<^verbatim>\<open>[..., np.newaxis]\<close> appends to \<open>s\<close> makes the product
  \<^verbatim>\<open>one_s * RGB\<close> broadcast the element of a vector over its components.
\<close>

definition RGB_to_Prismatic_batch :: "ndarray2 \<Rightarrow> error + ndarray2" where
  "RGB_to_Prismatic_batch RGB =
     (case amax_axis RGB of
        Inl e \<Rightarrow> Inl e
      | Inr L \<Rightarrow>
          (let s = map np_sum (vectors RGB);
               one_s = map (np_div (Fin 1)) s;
               one_s = map2 (\<lambda>sv ov. if np_eq sv (Fin 0) then Fin 0 else ov) s one_s;
               prod = map2 (\<lambda>c v. map (np_mul c) v) one_s (vectors RGB)
           in case tsplit_batch \<lparr>trailing = trailing RGB, vectors = prod\<rparr> of
                [r, g, b] \<Rightarrow> Inr (tstack_batch [L, r, g, b])
              | _ \<Rightarrow> Inl ValueError))"

text \<open>\<^verbatim>\<open>Prismatic_to_RGB\<close> on shape \<open>(N, n)\<close>, with the same broadcasting.\<close>

definition Prismatic_to_RGB_batch :: "ndarray2 \<Rightarrow> error + ndarray2" where
  "Prismatic_to_RGB_batch Lrgb =
     (let rgb = \<lparr>trailing = trailing Lrgb - 1, vectors = map (drop 1) (vectors Lrgb)\<rparr>
      in case amax_axis rgb of
           Inl e \<Rightarrow> Inl e
         | Inr m \<Rightarrow>
             (case index0_axis Lrgb of
                Inl e \<Rightarrow> Inl e
              | Inr L \<Rightarrow>
                  (let RGB = map2 np_div L m;
                       RGB = map2 (\<lambda>mv q. if np_eq mv (Fin 0) then Fin 0 else q) m RGB
                   in Inr \<lparr>trailing = trailing rgb,
                           vectors = map2 (\<lambda>q v. map (np_mul q) v) RGB (vectors rgb)\<rparr>)))"

section \<open>The examples of the docstrings\<close>

text \<open>
  The doctests compare printed digits; here two results are close when they have the same
  shape, every element is finite and the elements differ by at most the tolerance.
\<close>

fun close_to :: "real \<Rightarrow> npfloat \<Rightarrow> npfloat \<Rightarrow> bool" where
  "close_to tol (Fin a) (Fin b) = (\<bar>a - b\<bar> \<le> tol)"
| "close_to tol x y = False"

fun all_close :: "real \<Rightarrow> npfloat list \<Rightarrow> npfloat list \<Rightarrow> bool" where
  "all_close tol [] [] = True"
| "all_close tol (x # xs) (y # ys) = (close_to tol x y \<and> all_close tol xs ys)"
| "all_close tol xs ys = False"

definition returns_close :: "real \<Rightarrow> error + npfloat list \<Rightarrow> npfloat list \<Rightarrow> bool" where
  "returns_close tol res expected =
     (case res of Inl e \<Rightarrow> False | Inr out \<Rightarrow> all_close tol out expected)"

text \<open>
  The slice assignment of the docstring of \<^verbatim>\<open>RGB_to_Prismatic\<close>,
  \<^verbatim>\<open>Lrgb[..., 1:] = 1 / 3 + saturation * (Lrgb[..., 1:] - 1 / 3)\<close>: the first component is
  kept, every other one is rescaled.
\<close>

definition set_chromaticity_saturation :: "real \<Rightarrow> npfloat list \<Rightarrow> npfloat list" where
  "set_chromaticity_saturation saturation Lrgb =
     take 1 Lrgb @
     map (\<lambda>c. np_add (Fin (1 / 3)) (np_mul (Fin saturation) (np_sub c (Fin (1 / 3)))))
       (drop 1 Lrgb)"

text \<open>
  The three statements of that doctest: \<^verbatim>\<open>Lrgb = RGB_to_Prismatic(RGB)\<close>, the slice
  assignment, \<^verbatim>\<open>Prismatic_to_RGB(Lrgb)\<close>.
\<close>

definition saturation_doctest :: "real \<Rightarrow> npfloat list \<Rightarrow> error + npfloat list" where
  "saturation_doctest saturation RGB =
     (case RGB_to_Prismatic RGB of
        Inl e \<Rightarrow> Inl e
      | Inr Lrgb \<Rightarrow> Prismatic_to_RGB (set_chromaticity_saturation saturation Lrgb))"

section \<open>What the transforms compute on a vector of the right length\<close>

text \<open>
  The guarded reciprocal and quotient of the source, the maximum of a non-empty vector, and
  the vectors that the two transforms return on three and on four components. They are
  used to relate the transforms on a batch to the transforms on one vector.
\<close>

definition guarded_reciprocal :: "npfloat \<Rightarrow> npfloat" where
  "guarded_reciprocal s = (if np_eq s (Fin 0) then Fin 0 else np_div (Fin 1) s)"

definition guarded_quotient :: "npfloat \<Rightarrow> npfloat \<Rightarrow> npfloat" where
  "guarded_quotient L m = (if np_eq m (Fin 0) then Fin 0 else np_div L m)"

definition row_max :: "npfloat list \<Rightarrow> npfloat" where
  "row_max v = foldl np_maximum (hd v) (tl v)"

definition forward_vector :: "npfloat list \<Rightarrow> npfloat list" where
  "forward_vector v = row_max v # map (np_mul (guarded_reciprocal (np_sum v))) v"

definition inverse_vector :: "npfloat list \<Rightarrow> npfloat list" where
  "inverse_vector v =
     map (np_mul (guarded_quotient (v ! 0) (row_max (drop 1 v)))) (drop 1 v)"

section \<open>Both transforms on vectors of finite elements\<close>

lemma forward_finite:
  "RGB_to_Prismatic [Fin R, Fin G, Fin B] =
     Inr [Fin (max (max R G) B),
          Fin ((if R + G + B = 0 then 0 else 1 / (R + G + B)) * R),
          Fin ((if R + G + B = 0 then 0 else 1 / (R + G + B)) * G),
          Fin ((if R + G + B = 0 then 0 else 1 / (R + G + B)) * B)]"
  by (simp add: RGB_to_Prismatic_def np_sum_def tsplit_def tstack_def Let_def)

lemma inverse_finite:
  "Prismatic_to_RGB [Fin L, Fin r, Fin g, Fin b] =
     Inr [Fin ((if max (max r g) b = 0 then 0 else L / max (max r g) b) * r),
          Fin ((if max (max r g) b = 0 then 0 else L / max (max r g) b) * g),
          Fin ((if max (max r g) b = 0 then 0 else L / max (max r g) b) * b)]"
  by (simp add: Prismatic_to_RGB_def Let_def)

lemma max3_scale:
  fixes c :: real
  assumes "0 \<le> c"
  shows "max (max (c * x) (c * y)) (c * z) = c * max (max x y) z"
  using assms by (simp add: max_mult_distrib_left)

section \<open>Round trip\<close>

text \<open>
  Claim C1: for every RGB vector with non-negative real components, a positive maximum and
  a positive sum, the inverse transform applied to the result of the forward transform
  returns the vector itself, exactly (in exact arithmetic; rounding is not modelled).
\<close>

theorem roundtrip_RGB_Prismatic:
  assumes "0 \<le> R" "0 \<le> G" "0 \<le> B" "0 < max (max R G) B" "0 < R + G + B"
  shows "\<exists>Lrgb. RGB_to_Prismatic [Fin R, Fin G, Fin B] = Inr Lrgb
           \<and> Prismatic_to_RGB Lrgb = Inr [Fin R, Fin G, Fin B]"
proof -
  define s where "s = R + G + B"
  define M where "M = max (max R G) B"
  have s: "s \<noteq> 0" "0 < s" using assms by (simp_all add: s_def)
  have M: "0 < M" using assms by (simp add: M_def)
  have fw: "RGB_to_Prismatic [Fin R, Fin G, Fin B] =
      Inr [Fin M, Fin (1 / s * R), Fin (1 / s * G), Fin (1 / s * B)]"
    unfolding forward_finite s_def [symmetric] M_def [symmetric] using s by simp
  have m: "max (max (1 / s * R) (1 / s * G)) (1 / s * B) = 1 / s * M"
    unfolding M_def using s by (intro max3_scale) simp
  have mpos: "1 / s * M \<noteq> 0" using s M by simp
  have q: "M / (1 / s * M) = s" using s M by simp
  have bw: "Prismatic_to_RGB [Fin M, Fin (1 / s * R), Fin (1 / s * G), Fin (1 / s * B)]
      = Inr [Fin R, Fin G, Fin B]"
    unfolding inverse_finite m q using mpos s by simp
  show ?thesis using fw bw by blast
qed

theorem roundtrip_RGB_Prismatic_witness:
  "(0::real) \<le> 1 / 4 \<and> (0::real) \<le> 1 / 2 \<and> (0::real) \<le> 3 / 4
   \<and> (0::real) < max (max (1 / 4) (1 / 2)) (3 / 4) \<and> (0::real) < 1 / 4 + 1 / 2 + 3 / 4
   \<and> (\<exists>Lrgb. RGB_to_Prismatic [Fin (1 / 4), Fin (1 / 2), Fin (3 / 4)] = Inr Lrgb
         \<and> Prismatic_to_RGB Lrgb = Inr [Fin (1 / 4), Fin (1 / 2), Fin (3 / 4)])"
  using roundtrip_RGB_Prismatic [of "1 / 4" "1 / 2" "3 / 4"] by simp

section \<open>The forward transform\<close>

text \<open>
  Claim C2: for every RGB vector with \<open>R + G + B > 0\<close> the forward transform returns the
  maximum of the three components first, followed by three finite chromaticity components
  whose sum is exactly 1.
\<close>

theorem chromaticity_sums_to_one:
  assumes "0 < R + G + B"
  shows "\<exists>\<rho> \<gamma> \<beta>. RGB_to_Prismatic [Fin R, Fin G, Fin B]
             = Inr [Fin (max (max R G) B), Fin \<rho>, Fin \<gamma>, Fin \<beta>]
           \<and> \<rho> + \<gamma> + \<beta> = 1"
proof -
  define s where "s = R + G + B"
  have s: "s \<noteq> 0" using assms by (simp add: s_def)
  have "1 / s * R + 1 / s * G + 1 / s * B = 1 / s * s"
    unfolding s_def by (simp only: distrib_left)
  then have "1 / s * R + 1 / s * G + 1 / s * B = 1" using s by simp
  moreover have "RGB_to_Prismatic [Fin R, Fin G, Fin B] =
      Inr [Fin (max (max R G) B), Fin (1 / s * R), Fin (1 / s * G), Fin (1 / s * B)]"
    unfolding forward_finite s_def [symmetric] using s by simp
  ultimately show ?thesis by blast
qed

theorem chromaticity_sums_to_one_witness:
  "(0::real) < 1 + 2 + 3
   \<and> (\<exists>\<rho> \<gamma> \<beta>. RGB_to_Prismatic [Fin 1, Fin 2, Fin 3]
             = Inr [Fin (max (max 1 2) 3), Fin \<rho>, Fin \<gamma>, Fin \<beta>]
           \<and> \<rho> + \<gamma> + \<beta> = 1)"
  using chromaticity_sums_to_one [of 1 2 3] by simp

text \<open>
  Claim C3: on every finite non-negative RGB vector the forward transform returns a vector
  of finite elements only, neither \<open>nan\<close> nor an infinity, and the zero vector is mapped
  to the zero vector of four components.
\<close>

theorem forward_no_nan_inf:
  "(0 \<le> R \<and> 0 \<le> G \<and> 0 \<le> B \<longrightarrow>
      (\<exists>out. RGB_to_Prismatic [Fin R, Fin G, Fin B] = Inr out \<and> list_all is_finite out))
   \<and> RGB_to_Prismatic [Fin 0, Fin 0, Fin 0] = Inr [Fin 0, Fin 0, Fin 0, Fin 0]"
  unfolding forward_finite by simp

theorem forward_no_nan_inf_witness:
  "((0::real) \<le> 0 \<and> (0::real) \<le> 0 \<and> (0::real) \<le> 2)
   \<and> (\<exists>out. RGB_to_Prismatic [Fin 0, Fin 0, Fin 2] = Inr out \<and> list_all is_finite out)
   \<and> RGB_to_Prismatic [Fin 0, Fin 0, Fin 0] = Inr [Fin 0, Fin 0, Fin 0, Fin 0]"
  using forward_no_nan_inf [of 0 0 2] by simp

text \<open>
  Claim C10: whenever the components of an RGB vector sum to zero, also with components of
  both signs, the forward transform returns the maximum followed by three zeros.
\<close>

theorem forward_zero_sum:
  assumes "R + G + B = 0"
  shows "RGB_to_Prismatic [Fin R, Fin G, Fin B]
           = Inr [Fin (max (max R G) B), Fin 0, Fin 0, Fin 0]"
  unfolding forward_finite using assms by simp

theorem forward_zero_sum_witness:
  "(2::real) + (- 1) + (- 1) = 0
   \<and> RGB_to_Prismatic [Fin 2, Fin (- 1), Fin (- 1)] = Inr [Fin 2, Fin 0, Fin 0, Fin 0]"
  using forward_zero_sum [of 2 "- 1" "- 1"] by simp

section \<open>The inverse transform\<close>

text \<open>
  Claim C4: for every finite \<open>L\<close> the inverse transform maps \<open>[L, 0, 0, 0]\<close> to the zero
  vector \<open>[0, 0, 0]\<close>: the quotient \<open>L / 0\<close>, an infinity or \<open>nan\<close>, is overwritten.
\<close>

theorem inverse_degenerate_chromaticity:
  "Prismatic_to_RGB [Fin L, Fin 0, Fin 0, Fin 0] = Inr [Fin 0, Fin 0, Fin 0]"
  unfolding inverse_finite by simp

text \<open>
  Claim C5: for \<open>L \<ge> 0\<close> and a chromaticity with non-negative components that sum to 1
  and have a positive maximum, the maximum of the vector that the inverse transform
  returns is \<open>L\<close>.
\<close>

theorem inverse_max_is_luminance:
  assumes "0 \<le> L" "0 \<le> \<rho>" "0 \<le> \<gamma>" "0 \<le> \<beta>" "\<rho> + \<gamma> + \<beta> = 1"
    "0 < max (max \<rho> \<gamma>) \<beta>"
  shows "\<exists>out. Prismatic_to_RGB [Fin L, Fin \<rho>, Fin \<gamma>, Fin \<beta>] = Inr out
           \<and> amax out = Inr (Fin L)"
proof -
  define m where "m = max (max \<rho> \<gamma>) \<beta>"
  have m: "0 < m" using assms by (simp add: m_def)
  then have q: "0 \<le> L / m" using assms by simp
  have "max (max (L / m * \<rho>) (L / m * \<gamma>)) (L / m * \<beta>) = L / m * m"
    unfolding m_def using q [unfolded m_def] by (rule max3_scale)
  then have mx: "max (max (L / m * \<rho>) (L / m * \<gamma>)) (L / m * \<beta>) = L" using m by simp
  have bw: "Prismatic_to_RGB [Fin L, Fin \<rho>, Fin \<gamma>, Fin \<beta>] =
      Inr [Fin (L / m * \<rho>), Fin (L / m * \<gamma>), Fin (L / m * \<beta>)]"
    unfolding inverse_finite m_def [symmetric] using m by simp
  have "amax [Fin (L / m * \<rho>), Fin (L / m * \<gamma>), Fin (L / m * \<beta>)] = Inr (Fin L)"
    using mx by simp
  with bw show ?thesis by blast
qed

theorem inverse_max_is_luminance_witness:
  "(0::real) \<le> 3 \<and> (0::real) \<le> 1 / 5 \<and> (0::real) \<le> 3 / 10 \<and> (0::real) \<le> 1 / 2
   \<and> (1 / 5 + 3 / 10 + 1 / 2 = (1::real)) \<and> (0::real) < max (max (1 / 5) (3 / 10)) (1 / 2)
   \<and> (\<exists>out. Prismatic_to_RGB [Fin 3, Fin (1 / 5), Fin (3 / 10), Fin (1 / 2)] = Inr out
         \<and> amax out = Inr (Fin 3))"
  using inverse_max_is_luminance [of 3 "1 / 5" "3 / 10" "1 / 2"] by simp

section \<open>Shapes\<close>

text \<open>
  Claim C6, as stated, fails for the inverse transform: it never looks at the length of
  the trailing axis, and a vector of three components is transformed without an error.
\<close>

theorem inverse_accepts_three_components:
  "length [Fin 1, Fin 2, Fin 4] \<noteq> 4
   \<and> Prismatic_to_RGB [Fin 1, Fin 2, Fin 4] = Inr [Fin (1 / 2), Fin 1]"
  by (simp add: Prismatic_to_RGB_def Let_def)

text \<open>
  Claim C6, amended: the forward transform raises \<^verbatim>\<open>ValueError\<close> on every vector whose
  length is not 3. The inverse transform raises \<^verbatim>\<open>ValueError\<close> on a vector of at most one
  component (the maximum of an empty slice), and on every vector of two or more components
  it returns, without an error, a vector with one component less.
\<close>

theorem shape_errors:
  "(length u \<noteq> 3 \<longrightarrow> RGB_to_Prismatic u = Inl ValueError)
   \<and> (length v \<le> 1 \<longrightarrow> Prismatic_to_RGB v = Inl ValueError)
   \<and> (2 \<le> length w \<longrightarrow>
        (\<exists>out. Prismatic_to_RGB w = Inr out \<and> length out = length w - 1))"
proof (intro conjI impI)
  assume "length u \<noteq> 3"
  then show "RGB_to_Prismatic u = Inl ValueError"
    by (cases u) (auto simp: RGB_to_Prismatic_def tsplit_def Let_def split: list.splits)
next
  assume "length v \<le> 1"
  then have "drop 1 v = []" by simp
  then show "Prismatic_to_RGB v = Inl ValueError"
    by (simp add: Prismatic_to_RGB_def)
next
  assume "2 \<le> length w"
  then obtain L x xs where w: "w = L # x # xs"
    by (cases w; cases "tl w") auto
  show "\<exists>out. Prismatic_to_RGB w = Inr out \<and> length out = length w - 1"
    unfolding w by (simp add: Prismatic_to_RGB_def Let_def)
qed

theorem shape_errors_witness:
  "length [Fin 1, Fin 2] \<noteq> 3 \<and> RGB_to_Prismatic [Fin 1, Fin 2] = Inl ValueError
   \<and> length [Fin 1] \<le> 1 \<and> Prismatic_to_RGB [Fin 1] = Inl ValueError
   \<and> 2 \<le> length [Fin 1, Fin 2, Fin 4, Fin 4, Fin 2]
   \<and> (\<exists>out. Prismatic_to_RGB [Fin 1, Fin 2, Fin 4, Fin 4, Fin 2] = Inr out
         \<and> length out = length [Fin 1, Fin 2, Fin 4, Fin 4, Fin 2] - 1)"
  using shape_errors [of "[Fin 1, Fin 2]" "[Fin 1]" "[Fin 1, Fin 2, Fin 4, Fin 4, Fin 2]"]
  by simp

section \<open>The examples of the docstrings, evaluated\<close>

text \<open>
  Claim C7: the forward transform of \<open>[0.25, 0.50, 0.75]\<close> is within \<open>1 / 10 ^ 8\<close> of
  \<open>[0.75, 0.16666667, 0.33333333, 0.5]\<close>, and the inverse transform of
  \<open>[0.75, 0.16666667, 0.33333333, 0.5]\<close> is within \<open>1 / 10 ^ 8\<close> of \<open>[0.25, 0.5, 0.75]\<close>.
\<close>

theorem doctest_examples:
  "returns_close (1 / 10 ^ 8) (RGB_to_Prismatic [Fin 0.25, Fin 0.50, Fin 0.75])
       [Fin 0.75, Fin 0.16666667, Fin 0.33333333, Fin 0.5]
   \<and> returns_close (1 / 10 ^ 8)
       (Prismatic_to_RGB [Fin 0.75, Fin 0.16666667, Fin 0.33333333, Fin 0.5])
       [Fin 0.25, Fin 0.5, Fin 0.75]"
  unfolding forward_finite inverse_finite returns_close_def by simp

text \<open>
  Claim C8: the forward transform of \<open>[0.25, 0.50, 0.75]\<close>, with every chromaticity
  component \<open>c\<close> replaced by \<open>1/3 + 0.5 * (c - 1/3)\<close> and \<open>L\<close> kept, is mapped by the inverse
  transform to \<open>[0.45, 0.6, 0.75]\<close>; the adjustment is a rewrite of three components of
  the array between the two calls.
\<close>

theorem saturation_doctest_result:
  "saturation_doctest 0.5 [Fin 0.25, Fin 0.50, Fin 0.75] = Inr [Fin 0.45, Fin 0.6, Fin 0.75]"
  unfolding saturation_doctest_def forward_finite
  by (simp add: set_chromaticity_saturation_def np_sub_def inverse_finite)

section \<open>Batches\<close>

lemma sequence_amax:
  "list_all (\<lambda>v. v \<noteq> []) vs \<Longrightarrow> sequence (map amax vs) = Inr (map row_max vs)"
proof (induction vs)
  case Nil
  then show ?case by simp
next
  case (Cons v vs)
  then obtain x xs where "v = x # xs" by (cases v) auto
  with Cons show ?case by (simp add: row_max_def)
qed

lemma length3E:
  assumes "length v = 3"
  obtains a b c where "v = [a, b, c]"
  using assms by (cases v; cases "tl v"; cases "tl (tl v)") auto

lemma length4E:
  assumes "length v = 4"
  obtains a b c d where "v = [a, b, c, d]"
proof -
  from assms obtain a w where v: "v = a # w" and "length w = 3" by (cases v) auto
  then obtain b c d where "w = [b, c, d]" by (auto elim: length3E)
  with v that show thesis by blast
qed

lemma map2_same:
  "map2 h (map a xs) (map b xs) = map (\<lambda>x. h (a x) (b x)) xs"
  by (induction xs) auto

lemma map2_left:
  "map2 h (map a xs) xs = map (\<lambda>x. h (a x) x) xs"
  by (induction xs) auto

lemma upt_3: "[0..<3] = [0, 1, 2]"
  by (simp add: upt_rec)

lemma tsplit_batch_3:
  "tsplit_batch \<lparr>trailing = 3, vectors = vs\<rparr> =
     [map (\<lambda>v. v ! 0) vs, map (\<lambda>v. v ! 1) vs, map (\<lambda>v. v ! 2) vs]"
  unfolding tsplit_batch_def by (simp only: ndarray2.simps upt_3 list.map)

lemma tstack_batch_4:
  "tstack_batch [L, r, g, b] =
     \<lparr>trailing = 4, vectors = map (\<lambda>i. [L ! i, r ! i, g ! i, b ! i]) [0..<length L]\<rparr>"
  by (simp add: tstack_batch_def)

lemma forward_length3:
  assumes "length v = 3"
  shows "RGB_to_Prismatic v = Inr (forward_vector v)"
proof -
  from assms obtain a b c where "v = [a, b, c]" by (rule length3E)
  then show ?thesis
    by (simp add: RGB_to_Prismatic_def guarded_reciprocal_def forward_vector_def row_max_def
        tsplit_def tstack_def Let_def)
qed

lemma inverse_length4:
  assumes "length v = 4"
  shows "Prismatic_to_RGB v = Inr (inverse_vector v)"
proof -
  from assms obtain a b c d where "v = [a, b, c, d]" by (rule length4E)
  then show ?thesis
    by (simp add: Prismatic_to_RGB_def guarded_quotient_def inverse_vector_def row_max_def
        Let_def)
qed

lemma forward_batch_3:
  assumes wf: "list_all (\<lambda>v. length v = 3) vs"
  shows "RGB_to_Prismatic_batch \<lparr>trailing = 3, vectors = vs\<rparr> =
     Inr \<lparr>trailing = 4, vectors = map forward_vector vs\<rparr>"
proof -
  define L where "L = map row_max vs"
  define P where "P = map (\<lambda>v. map (np_mul (guarded_reciprocal (np_sum v))) v) vs"
  have ne: "list_all (\<lambda>v. v \<noteq> []) vs"
    using wf by (auto simp: list_all_iff)
  have mx: "amax_axis \<lparr>trailing = 3, vectors = vs\<rparr> = Inr L"
    by (simp add: amax_axis_def sequence_amax [OF ne] L_def)
  have one_s: "map2 (\<lambda>sv ov. if np_eq sv (Fin 0) then Fin 0 else ov)
        (map np_sum vs) (map (np_div (Fin 1)) (map np_sum vs))
      = map (\<lambda>v. guarded_reciprocal (np_sum v)) vs"
    unfolding map_map map2_same by (simp add: guarded_reciprocal_def)
  have prod: "map2 (\<lambda>c v. map (np_mul c) v) (map (\<lambda>v. guarded_reciprocal (np_sum v)) vs) vs = P"
    unfolding map2_left P_def ..
  have rows: "map (\<lambda>i. [L ! i, map (\<lambda>v. v ! 0) P ! i, map (\<lambda>v. v ! 1) P ! i,
                          map (\<lambda>v. v ! 2) P ! i]) [0..<length L]
      = map forward_vector vs" (is "?lhs = ?rhs")
  proof (rule nth_equalityI)
    show "length ?lhs = length ?rhs"
      by (simp add: L_def)
  next
    fix i assume "i < length ?lhs"
    then have i: "i < length vs" by (simp add: L_def)
    with wf have "length (vs ! i) = 3" by (simp add: list_all_length)
    then obtain a b c where "vs ! i = [a, b, c]" by (rule length3E)
    with i show "?lhs ! i = ?rhs ! i"
      by (simp add: L_def P_def forward_vector_def)
  qed
  show ?thesis
    unfolding RGB_to_Prismatic_batch_def mx Let_def ndarray2.simps sum.case one_s prod
      tsplit_batch_3 list.case tstack_batch_4 rows ..
qed

lemma inverse_batch_4:
  assumes wf: "list_all (\<lambda>v. length v = 4) vs"
  shows "Prismatic_to_RGB_batch \<lparr>trailing = 4, vectors = vs\<rparr> =
     Inr \<lparr>trailing = 3, vectors = map inverse_vector vs\<rparr>"
proof -
  define M where "M = map (\<lambda>v. row_max (drop 1 v)) vs"
  define L where "L = map (\<lambda>v. v ! 0) vs"
  have ne: "list_all (\<lambda>v. v \<noteq> []) (map (drop 1) vs)"
    using wf by (auto simp: list_all_iff)
  have mx: "amax_axis \<lparr>trailing = 3, vectors = map (drop 1) vs\<rparr> = Inr M"
    using sequence_amax [OF ne] by (simp add: amax_axis_def M_def comp_def)
  have ix: "index0_axis \<lparr>trailing = 4, vectors = vs\<rparr> = Inr L"
    by (simp add: index0_axis_def L_def)
  have quot: "map2 (\<lambda>mv q. if np_eq mv (Fin 0) then Fin 0 else q) M (map2 np_div L M)
      = map (\<lambda>v. guarded_quotient (v ! 0) (row_max (drop 1 v))) vs"
    unfolding M_def L_def map2_same by (simp add: guarded_quotient_def)
  have rows: "map2 (\<lambda>q v. map (np_mul q) v)
        (map (\<lambda>v. guarded_quotient (v ! 0) (row_max (drop 1 v))) vs) (map (drop 1) vs)
      = map inverse_vector vs"
    unfolding map2_same inverse_vector_def ..
  have three: "(4::nat) - 1 = 3" by simp
  show ?thesis
    unfolding Prismatic_to_RGB_batch_def Let_def ndarray2.simps mx ix sum.case quot rows three ..
qed

text \<open>
  Claim C9: on a batch of \<open>N\<close> vectors of three components the forward transform returns
  a batch of \<open>N\<close> vectors of four components, and the vector at every position is the one
  that the forward transform returns on the input vector at that position alone; likewise
  for the inverse transform on a batch of vectors of four components.
\<close>

theorem batch_is_elementwise:
  "(wellformed a \<and> trailing a = 3 \<longrightarrow>
      (\<exists>out. RGB_to_Prismatic_batch a = Inr out \<and> trailing out = 4
         \<and> map RGB_to_Prismatic (vectors a) = map Inr (vectors out)))
   \<and> (wellformed b \<and> trailing b = 4 \<longrightarrow>
      (\<exists>out. Prismatic_to_RGB_batch b = Inr out \<and> trailing out = 3
         \<and> map Prismatic_to_RGB (vectors b) = map Inr (vectors out)))"
proof (intro conjI impI)
  assume "wellformed a \<and> trailing a = 3"
  then have wf: "list_all (\<lambda>v. length v = 3) (vectors a)" and a: "trailing a = 3"
    by (auto simp: wellformed_def)
  have "a = \<lparr>trailing = 3, vectors = vectors a\<rparr>"
    using a by (cases a) simp
  then have "RGB_to_Prismatic_batch a = Inr \<lparr>trailing = 4, vectors = map forward_vector (vectors a)\<rparr>"
    using forward_batch_3 [OF wf] by simp
  moreover have "map RGB_to_Prismatic (vectors a) = map Inr (map forward_vector (vectors a))"
    using wf by (simp add: list_all_iff forward_length3)
  ultimately show "\<exists>out. RGB_to_Prismatic_batch a = Inr out \<and> trailing out = 4
         \<and> map RGB_to_Prismatic (vectors a) = map Inr (vectors out)"
    by simp
next
  assume "wellformed b \<and> trailing b = 4"
  then have wf: "list_all (\<lambda>v. length v = 4) (vectors b)" and b: "trailing b = 4"
    by (auto simp: wellformed_def)
  have "b = \<lparr>trailing = 4, vectors = vectors b\<rparr>"
    using b by (cases b) simp
  then have "Prismatic_to_RGB_batch b = Inr \<lparr>trailing = 3, vectors = map inverse_vector (vectors b)\<rparr>"
    using inverse_batch_4 [OF wf] by simp
  moreover have "map Prismatic_to_RGB (vectors b) = map Inr (map inverse_vector (vectors b))"
    using wf by (simp add: list_all_iff inverse_length4)
  ultimately show "\<exists>out. Prismatic_to_RGB_batch b = Inr out \<and> trailing out = 3
         \<and> map Prismatic_to_RGB (vectors b) = map Inr (vectors out)"
    by simp
qed

theorem batch_is_elementwise_witness:
  "(wellformed \<lparr>trailing = 3, vectors = [[Fin 1, Fin 2, Fin 3], [Fin 0, Fin 0, Fin 0]]\<rparr>
    \<and> trailing \<lparr>trailing = 3, vectors = [[Fin 1, Fin 2, Fin 3], [Fin 0, Fin 0, Fin 0]]\<rparr> = 3)
   \<and> (\<exists>out. RGB_to_Prismatic_batch
               \<lparr>trailing = 3, vectors = [[Fin 1, Fin 2, Fin 3], [Fin 0, Fin 0, Fin 0]]\<rparr> = Inr out
         \<and> trailing out = 4
         \<and> map RGB_to_Prismatic [[Fin 1, Fin 2, Fin 3], [Fin 0, Fin 0, Fin 0]]
             = map Inr (vectors out))
   \<and> (wellformed \<lparr>trailing = 4, vectors = [[Fin 3, Fin 1, Fin 2, Fin 3], [Fin 5, Fin 0, Fin 0, Fin 0]]\<rparr>
    \<and> trailing \<lparr>trailing = 4, vectors = [[Fin 3, Fin 1, Fin 2, Fin 3], [Fin 5, Fin 0, Fin 0, Fin 0]]\<rparr> = 4)
   \<and> (\<exists>out. Prismatic_to_RGB_batch
               \<lparr>trailing = 4, vectors = [[Fin 3, Fin 1, Fin 2, Fin 3], [Fin 5, Fin 0, Fin 0, Fin 0]]\<rparr> = Inr out
         \<and> trailing out = 3
         \<and> map Prismatic_to_RGB [[Fin 3, Fin 1, Fin 2, Fin 3], [Fin 5, Fin 0, Fin 0, Fin 0]]
             = map Inr (vectors out))"
  using batch_is_elementwise
    [of "\<lparr>trailing = 3, vectors = [[Fin 1, Fin 2, Fin 3], [Fin 0, Fin 0, Fin 0]]\<rparr>"
        "\<lparr>trailing = 4, vectors = [[Fin 3, Fin 1, Fin 2, Fin 3], [Fin 5, Fin 0, Fin 0, Fin 0]]\<rparr>"]
  by (simp add: wellformed_def)

end
